theory Spec2Isabelle
  imports Main
begin

section \<open>MapView: data model\<close>

text \<open>
  The development follows \<^verbatim>\<open>src/components/map/MapView.tsx\<close>. The component receives
  its inputs as props and derives three pieces of state from them: the readiness flag of
  the container, the pulsing radius of the animation, and the list of deck.gl layers.
\<close>

subsection \<open>JavaScript values that may be absent\<close>

text \<open>
  A property of the result bundle, and the optional prop \<^verbatim>\<open>countriesGeoJSON\<close>, is either
  missing (\<^verbatim>\<open>undefined\<close>), \<^verbatim>\<open>null\<close>, or an object. The guards of the component test
  such a value for truthiness; an object is always truthy, \<^verbatim>\<open>undefined\<close> and
  \<^verbatim>\<open>null\<close> never are.
\<close>

datatype 'a slot = Undefined | Null | Obj 'a

fun truthy :: "'a slot \<Rightarrow> bool" where
  "truthy Undefined = False"
| "truthy Null = False"
| "truthy (Obj v) = True"

subsection \<open>Props\<close>

text \<open>\<^verbatim>\<open>LayerToggleState\<close>: one boolean per layer kind.\<close>

record LayerToggleState =
  choropleth :: bool
  conflict :: bool
  foodDesert :: bool
  infrastructure :: bool
  tradeArcs :: bool
  displacementArcs :: bool
  heatmap :: bool

text \<open>
  \<^verbatim>\<open>AgentResults\<close>: one optional output per agent. The payloads are opaque to the
  component, which only tests their presence and hands them to a layer builder; each is
  a type parameter.
\<close>

record ('g, 'e, 'f, 'i, 'c) AgentResults =
  geopolitics :: "'g slot"
  economy :: "'e slot"
  food_supply :: "'f slot"
  infrastructure_out :: "'i slot"
  civilian_impact :: "'c slot"

subsection \<open>Layer descriptors and their builders\<close>

datatype kind =
  Choropleth | Conflict | FoodDesert | Infrastructure | TradeArcs | DisplacementArcs | Heatmap

text \<open>
  The seven builders are imported from \<^verbatim>\<open>./layers/*\<close>, outside this file. A descriptor
  is represented by the builder that made it together with the arguments the builder
  was given: its kind, its data and the parameters of its style.
\<close>

datatype ('geo, 'g, 'e, 'f, 'i, 'c, 'n) layer =
  ChoroplethLayer 'geo "('g, 'e, 'f, 'i, 'c) AgentResults" "string option"
| ConflictLayer 'g 'n
| FoodDesertLayer 'geo 'f
| InfrastructureLayer 'i
| TradeArcLayer "'e slot" "'f slot"
| DisplacementArcLayer 'c
| HeatmapLayer "('g, 'e, 'f, 'i, 'c) AgentResults"

fun kind_of :: "('geo, 'g, 'e, 'f, 'i, 'c, 'n) layer \<Rightarrow> kind" where
  "kind_of (ChoroplethLayer geo r sel) = Choropleth"
| "kind_of (ConflictLayer gp p) = Conflict"
| "kind_of (FoodDesertLayer geo fs) = FoodDesert"
| "kind_of (InfrastructureLayer io) = Infrastructure"
| "kind_of (TradeArcLayer ec fs) = TradeArcs"
| "kind_of (DisplacementArcLayer ci) = DisplacementArcs"
| "kind_of (HeatmapLayer r) = Heatmap"

text \<open>A builder that is handed an absent value where it declares an input faults.\<close>

datatype fault = MissingInput kind

text \<open>
  Modelled from the spec: the builders \<^verbatim>\<open>createChoroplethLayer\<close>,
  \<^verbatim>\<open>createConflictLayer\<close>, \<^verbatim>\<open>createFoodDesertLayer\<close>,
  \<^verbatim>\<open>createInfrastructureLayer\<close>, \<^verbatim>\<open>createTradeArcLayer\<close>,
  \<^verbatim>\<open>createDisplacementArcLayer\<close> and \<^verbatim>\<open>createHeatmapLayer\<close> are missing from
  the sources. Each is a pure function from its stated inputs to one descriptor and may
  assume that its declared inputs are present; the trade-arc builder tolerates either of
  its two inputs being absent, but not both. The component passes the raw property
  (under a type assertion), so each builder takes the slot and faults when a declared
  input is absent.
\<close>

definition createChoroplethLayer ::
  "'geo slot \<Rightarrow> ('g, 'e, 'f, 'i, 'c) AgentResults \<Rightarrow> string option
     \<Rightarrow> fault + ('geo, 'g, 'e, 'f, 'i, 'c, 'n) layer" where
  "createChoroplethLayer countries results selected =
     (case countries of Obj geo \<Rightarrow> Inr (ChoroplethLayer geo results selected)
      | _ \<Rightarrow> Inl (MissingInput Choropleth))"

definition createConflictLayer ::
  "'g slot \<Rightarrow> 'n \<Rightarrow> fault + ('geo, 'g, 'e, 'f, 'i, 'c, 'n) layer" where
  "createConflictLayer gp pulse =
     (case gp of Obj v \<Rightarrow> Inr (ConflictLayer v pulse) | _ \<Rightarrow> Inl (MissingInput Conflict))"

definition createFoodDesertLayer ::
  "'geo slot \<Rightarrow> 'f slot \<Rightarrow> fault + ('geo, 'g, 'e, 'f, 'i, 'c, 'n) layer" where
  "createFoodDesertLayer countries fs =
     (case countries of
        Obj geo \<Rightarrow>
          (case fs of Obj v \<Rightarrow> Inr (FoodDesertLayer geo v)
           | _ \<Rightarrow> Inl (MissingInput FoodDesert))
      | _ \<Rightarrow> Inl (MissingInput FoodDesert))"

definition createInfrastructureLayer ::
  "'i slot \<Rightarrow> fault + ('geo, 'g, 'e, 'f, 'i, 'c, 'n) layer" where
  "createInfrastructureLayer io =
     (case io of Obj v \<Rightarrow> Inr (InfrastructureLayer v)
      | _ \<Rightarrow> Inl (MissingInput Infrastructure))"

definition createTradeArcLayer ::
  "'e slot \<Rightarrow> 'f slot \<Rightarrow> fault + ('geo, 'g, 'e, 'f, 'i, 'c, 'n) layer" where
  "createTradeArcLayer ec fs =
     (if truthy ec \<or> truthy fs then Inr (TradeArcLayer ec fs)
      else Inl (MissingInput TradeArcs))"

definition createDisplacementArcLayer ::
  "'c slot \<Rightarrow> fault + ('geo, 'g, 'e, 'f, 'i, 'c, 'n) layer" where
  "createDisplacementArcLayer ci =
     (case ci of Obj v \<Rightarrow> Inr (DisplacementArcLayer v)
      | _ \<Rightarrow> Inl (MissingInput DisplacementArcs))"

definition createHeatmapLayer ::
  "('g, 'e, 'f, 'i, 'c) AgentResults \<Rightarrow> fault + ('geo, 'g, 'e, 'f, 'i, 'c, 'n) layer" where
  "createHeatmapLayer results = Inr (HeatmapLayer results)"

section \<open>Layer composition\<close>

text \<open>
  The body of the \<^verbatim>\<open>useMemo\<close> callback is a sequence of guarded pushes onto
  \<^verbatim>\<open>deckLayers\<close>. A step is a guard and the builder call it protects; the call is
  made only when the guard holds, and a fault of the builder leaves the callback at once.
\<close>

type_synonym 'l guarded = "bool \<times> (unit \<Rightarrow> fault + 'l)"

fun pushes :: "'l guarded list \<Rightarrow> 'l list \<Rightarrow> fault + 'l list" where
  "pushes [] deckLayers = Inr deckLayers"
| "pushes ((guard, build) # rest) deckLayers =
     (if guard
      then (case build () of
              Inl e \<Rightarrow> Inl e
            | Inr l \<Rightarrow> pushes rest (deckLayers @ [l]))
      else pushes rest deckLayers)"

text \<open>
  The steps in the order of the source. The last guard tests the bundle itself, which is
  always a provided object.
\<close>

definition steps ::
  "LayerToggleState \<Rightarrow> ('g, 'e, 'f, 'i, 'c) AgentResults \<Rightarrow> string option \<Rightarrow> 'geo slot \<Rightarrow> 'n
     \<Rightarrow> ('geo, 'g, 'e, 'f, 'i, 'c, 'n) layer guarded list" where
  "steps layerToggles agentResults selectedCountry countriesGeoJSON pulsingRadius =
     [(choropleth layerToggles \<and> truthy countriesGeoJSON,
         \<lambda>_. createChoroplethLayer countriesGeoJSON agentResults selectedCountry),
      (conflict layerToggles \<and> truthy (geopolitics agentResults),
         \<lambda>_. createConflictLayer (geopolitics agentResults) pulsingRadius),
      (foodDesert layerToggles \<and> truthy countriesGeoJSON \<and> truthy (food_supply agentResults),
         \<lambda>_. createFoodDesertLayer countriesGeoJSON (food_supply agentResults)),
      (infrastructure layerToggles \<and> truthy (infrastructure_out agentResults),
         \<lambda>_. createInfrastructureLayer (infrastructure_out agentResults)),
      (tradeArcs layerToggles \<and> (truthy (economy agentResults) \<or> truthy (food_supply agentResults)),
         \<lambda>_. createTradeArcLayer (economy agentResults) (food_supply agentResults)),
      (displacementArcs layerToggles \<and> truthy (civilian_impact agentResults),
         \<lambda>_. createDisplacementArcLayer (civilian_impact agentResults)),
      (heatmap layerToggles \<and> truthy (Obj agentResults),
         \<lambda>_. createHeatmapLayer agentResults)]"

definition layers ::
  "LayerToggleState \<Rightarrow> ('g, 'e, 'f, 'i, 'c) AgentResults \<Rightarrow> string option \<Rightarrow> 'geo slot \<Rightarrow> 'n
     \<Rightarrow> fault + ('geo, 'g, 'e, 'f, 'i, 'c, 'n) layer list" where
  "layers layerToggles agentResults selectedCountry countriesGeoJSON pulsingRadius =
     pushes (steps layerToggles agentResults selectedCountry countriesGeoJSON pulsingRadius) []"

text \<open>The declaration order of the kinds.\<close>

definition kind_order :: "kind list" where
  "kind_order =
     [Choropleth, Conflict, FoodDesert, Infrastructure, TradeArcs, DisplacementArcs, Heatmap]"


text \<open>
  The inclusion rule of each kind as the table of the specification states it: the toggle
  of the kind, and the inputs that must be present.
\<close>

fun toggle :: "kind \<Rightarrow> LayerToggleState \<Rightarrow> bool" where
  "toggle Choropleth t = choropleth t"
| "toggle Conflict t = conflict t"
| "toggle FoodDesert t = foodDesert t"
| "toggle Infrastructure t = infrastructure t"
| "toggle TradeArcs t = tradeArcs t"
| "toggle DisplacementArcs t = displacementArcs t"
| "toggle Heatmap t = heatmap t"

fun inputs_present :: "kind \<Rightarrow> ('g, 'e, 'f, 'i, 'c) AgentResults \<Rightarrow> 'geo slot \<Rightarrow> bool" where
  "inputs_present Choropleth r g = truthy g"
| "inputs_present Conflict r g = truthy (geopolitics r)"
| "inputs_present FoodDesert r g = (truthy g \<and> truthy (food_supply r))"
| "inputs_present Infrastructure r g = truthy (infrastructure_out r)"
| "inputs_present TradeArcs r g = (truthy (economy r) \<or> truthy (food_supply r))"
| "inputs_present DisplacementArcs r g = truthy (civilian_impact r)"
| "inputs_present Heatmap r g = True"

definition inclusion_rule ::
  "kind \<Rightarrow> LayerToggleState \<Rightarrow> ('g, 'e, 'f, 'i, 'c) AgentResults \<Rightarrow> 'geo slot \<Rightarrow> bool" where
  "inclusion_rule k t r g \<longleftrightarrow> toggle k t \<and> inputs_present k r g"

text \<open>
  Two descriptors agree up to the highlight when they are equal, or are both choropleth
  descriptors over the same geometry and the same bundle.
\<close>

fun same_up_to_highlight ::
  "('geo, 'g, 'e, 'f, 'i, 'c, 'n) layer \<Rightarrow> ('geo, 'g, 'e, 'f, 'i, 'c, 'n) layer \<Rightarrow> bool" where
  "same_up_to_highlight (ChoroplethLayer geo1 r1 sel1) (ChoroplethLayer geo2 r2 sel2) =
     (geo1 = geo2 \<and> r1 = r2)"
| "same_up_to_highlight a b = (a = b)"

section \<open>Memoization of the layer list\<close>

text \<open>
  \<^verbatim>\<open>useMemo\<close> keeps the dependency list and the value of the last computation, and
  calls the callback again when some dependency is not the same value as before
  (\<^verbatim>\<open>Object.is\<close>): the same object for the three object props, the same value for the
  selected country and the pulsing radius. An object prop is its identity and its
  content.
\<close>

datatype 'a ref = Ref (addr: nat) (content: 'a)

fun same_slot :: "'a ref slot \<Rightarrow> 'a ref slot \<Rightarrow> bool" where
  "same_slot Undefined Undefined = True"
| "same_slot Null Null = True"
| "same_slot (Obj a) (Obj b) = (addr a = addr b)"
| "same_slot _ _ = False"

record ('geo, 'g, 'e, 'f, 'i, 'c, 'n) deps =
  dep_layerToggles :: "LayerToggleState ref"
  dep_agentResults :: "('g, 'e, 'f, 'i, 'c) AgentResults ref"
  dep_selectedCountry :: "string option"
  dep_countriesGeoJSON :: "'geo ref slot"
  dep_pulsingRadius :: 'n

definition are_deps_equal ::
  "('geo, 'g, 'e, 'f, 'i, 'c, 'n) deps \<Rightarrow> ('geo, 'g, 'e, 'f, 'i, 'c, 'n) deps \<Rightarrow> bool" where
  "are_deps_equal prev next \<longleftrightarrow>
     addr (dep_layerToggles prev) = addr (dep_layerToggles next) \<and>
     addr (dep_agentResults prev) = addr (dep_agentResults next) \<and>
     dep_selectedCountry prev = dep_selectedCountry next \<and>
     same_slot (dep_countriesGeoJSON prev) (dep_countriesGeoJSON next) \<and>
     dep_pulsingRadius prev = dep_pulsingRadius next"

text \<open>
  The memo cell. Every call of a builder constructs a new descriptor object; the identity
  of a descriptor is the number of its construction, and \<^verbatim>\<open>next_addr\<close> counts them.
\<close>

record ('geo, 'g, 'e, 'f, 'i, 'c, 'n) memo =
  last_deps :: "('geo, 'g, 'e, 'f, 'i, 'c, 'n) deps option"
  cached :: "(nat \<times> ('geo, 'g, 'e, 'f, 'i, 'c, 'n) layer) list"
  next_addr :: nat

definition first_render :: "('geo, 'g, 'e, 'f, 'i, 'c, 'n) memo" where
  "first_render = \<lparr>last_deps = None, cached = [], next_addr = 0\<rparr>"

definition compose ::
  "('geo, 'g, 'e, 'f, 'i, 'c, 'n) deps \<Rightarrow> fault + ('geo, 'g, 'e, 'f, 'i, 'c, 'n) layer list" where
  "compose d =
     layers (content (dep_layerToggles d)) (content (dep_agentResults d)) (dep_selectedCountry d)
       (map_slot content (dep_countriesGeoJSON d)) (dep_pulsingRadius d)"

definition recompute ::
  "('geo, 'g, 'e, 'f, 'i, 'c, 'n) memo \<Rightarrow> ('geo, 'g, 'e, 'f, 'i, 'c, 'n) deps
     \<Rightarrow> fault + ((nat \<times> ('geo, 'g, 'e, 'f, 'i, 'c, 'n) layer) list
                  \<times> ('geo, 'g, 'e, 'f, 'i, 'c, 'n) memo)" where
  "recompute m d =
     (case compose d of
        Inl e \<Rightarrow> Inl e
      | Inr L \<Rightarrow>
          (let objs = zip [next_addr m ..< next_addr m + length L] L
           in Inr (objs,
                   \<lparr>last_deps = Some d, cached = objs, next_addr = next_addr m + length L\<rparr>)))"

definition useMemo ::
  "('geo, 'g, 'e, 'f, 'i, 'c, 'n) memo \<Rightarrow> ('geo, 'g, 'e, 'f, 'i, 'c, 'n) deps
     \<Rightarrow> fault + ((nat \<times> ('geo, 'g, 'e, 'f, 'i, 'c, 'n) layer) list
                  \<times> ('geo, 'g, 'e, 'f, 'i, 'c, 'n) memo)" where
  "useMemo m d =
     (case last_deps m of
        None \<Rightarrow> recompute m d
      | Some prev \<Rightarrow> if are_deps_equal prev d then Inr (cached m, m) else recompute m d)"

text \<open>In a memo cell that renders have produced, every cached identity has been issued.\<close>

definition wf_memo :: "('geo, 'g, 'e, 'f, 'i, 'c, 'n) memo \<Rightarrow> bool" where
  "wf_memo m \<longleftrightarrow> (\<forall>a \<in> set (map fst (cached m)). a < next_addr m)"


text \<open>The cached list of a memo cell is what the callback made of the last dependencies.\<close>

definition consistent :: "('geo, 'g, 'e, 'f, 'i, 'c, 'n) memo \<Rightarrow> bool" where
  "consistent m =
     (case last_deps m of
        None \<Rightarrow> True
      | Some prev \<Rightarrow> compose prev = Inr (map snd (cached m)))"


section \<open>Readiness of the container\<close>

text \<open>
  The state \<^verbatim>\<open>ready\<close> starts false. The effect depends on \<^verbatim>\<open>[ready]\<close>: it runs
  after the first render and again after every render in which \<^verbatim>\<open>ready\<close> differs from
  the value the last run saw (\<^verbatim>\<open>closure_ready\<close>); before a new run the cleanup of the
  last one disconnects its observer. A run reads the container (a missing container ends
  the run), checks its size, and registers a \<^verbatim>\<open>ResizeObserver\<close> when the \<^verbatim>\<open>ready\<close>
  it saw was false. \<^verbatim>\<open>clientWidth\<close> and \<^verbatim>\<open>clientHeight\<close> are integers.
\<close>

record gate =
  ready :: bool
  closure_ready :: bool
  observing :: bool

definition check :: "int \<Rightarrow> int \<Rightarrow> gate \<Rightarrow> gate" where
  "check clientWidth clientHeight s =
     (if clientWidth > 0 \<and> clientHeight > 0 then s\<lparr>ready := True\<rparr> else s)"

definition effect :: "(int \<times> int) option \<Rightarrow> gate \<Rightarrow> gate" where
  "effect el s =
     (let rdy = ready s;
          s0 = s\<lparr>closure_ready := rdy, observing := False\<rparr>
      in case el of
           None \<Rightarrow> s0
         | Some (w, h) \<Rightarrow>
             (let s1 = check w h s0
              in if \<not> rdy then s1\<lparr>observing := True\<rparr> else s1))"

definition initial :: gate where
  "initial = \<lparr>ready = False, closure_ready = False, observing = False\<rparr>"

definition mount :: "(int \<times> int) option \<Rightarrow> gate" where
  "mount el = effect el initial"

text \<open>
  After the mount the component sees notifications of the observer, each with the size
  of the container at that moment, and renders, each with the container as the effect
  would read it.
\<close>

datatype event = Notify int int | Render "(int \<times> int) option"

fun step :: "gate \<Rightarrow> event \<Rightarrow> gate" where
  "step s (Notify w h) = (if observing s then check w h s else s)"
| "step s (Render el) = (if ready s \<noteq> closure_ready s then effect el s else s)"

definition run :: "(int \<times> int) option \<Rightarrow> event list \<Rightarrow> gate" where
  "run el evs = foldl step (mount el) evs"

text \<open>A notification that reports a width and a height above zero.\<close>

fun sized :: "event \<Rightarrow> bool" where
  "sized (Notify w h) = (w > 0 \<and> h > 0)"
| "sized (Render el) = False"

text \<open>The gate waits: not ready, seen as not ready by the effect, and observing.\<close>

definition waiting :: "gate \<Rightarrow> bool" where
  "waiting s \<longleftrightarrow> \<not> ready s \<and> \<not> closure_ready s \<and> observing s"

section \<open>The pulsing radius\<close>

text \<open>
  A JavaScript number is an IEEE 754 binary64 value. The values of the animation are
  positive and stay between one half and two, so a number is a mantissa and an exponent,
  of value \<open>mantissa \<times> 2 ^ exponent\<close>, kept normal: the mantissa has exactly 53 bits.
  Signs, zeros, subnormal numbers, infinities and NaN do not occur.
\<close>

datatype double = Double (mantissa: int) (exponent: int)

function bit_length :: "int \<Rightarrow> nat" where
  "bit_length n = (if n \<le> 0 then 0 else Suc (bit_length (n div 2)))"
  by pat_completeness auto
termination
  by (relation "measure nat") auto

declare bit_length.simps [simp del]

text \<open>
  Rounding of the exact value \<open>m \<times> 2 ^ e\<close> to 53 bits, to the nearest number and to the
  even mantissa at a tie.
\<close>

definition round_nearest_even :: "int \<Rightarrow> int \<Rightarrow> double" where
  "round_nearest_even m e =
     (let n = bit_length m in
      if n \<le> 53 then Double (m * 2 ^ (53 - n)) (e - int (53 - n))
      else
        let s = n - 53;
            q = m div 2 ^ s;
            rest = m mod 2 ^ s;
            half = 2 ^ (s - 1);
            q' = (if rest > half \<or> (rest = half \<and> odd q) then q + 1 else q)
        in if q' = 2 ^ 53 then Double (2 ^ 52) (e + int s + 1) else Double q' (e + int s))"

text \<open>Two numbers over their common, smaller exponent.\<close>

definition aligned :: "double \<Rightarrow> double \<Rightarrow> int \<times> int \<times> int" where
  "aligned a b =
     (let e = min (exponent a) (exponent b)
      in (mantissa a * 2 ^ nat (exponent a - e), mantissa b * 2 ^ nat (exponent b - e), e))"

definition plus_double :: "double \<Rightarrow> double \<Rightarrow> double" where
  "plus_double a b = (case aligned a b of (x, y, e) \<Rightarrow> round_nearest_even (x + y) e)"

definition greater_double :: "double \<Rightarrow> double \<Rightarrow> bool" where
  "greater_double a b = (case aligned a b of (x, y, e) \<Rightarrow> x > y)"

definition eq_double :: "double \<Rightarrow> double \<Rightarrow> bool" where
  "eq_double a b = (case aligned a b of (x, y, e) \<Rightarrow> x = y)"

text \<open>
  The literals of the source as binary64 numbers: \<^verbatim>\<open>1\<close>, \<^verbatim>\<open>0.02\<close>, \<^verbatim>\<open>1.2\<close>
  and \<^verbatim>\<open>0.8\<close>. Only the first is the decimal it is written as.
\<close>

definition lit_1 :: double where
  "lit_1 = Double 4503599627370496 (- 52)"

definition lit_0_02 :: double where
  "lit_0_02 = Double 5764607523034235 (- 58)"

definition lit_1_2 :: double where
  "lit_1_2 = Double 5404319552844595 (- 52)"

definition lit_0_8 :: double where
  "lit_0_8 = Double 7205759403792794 (- 53)"

text \<open>
  \<open>nearest_to d p q\<close>: the normal number \<open>d\<close> lies less than half a unit of its last
  place from the fraction \<open>p / q\<close>.
\<close>

definition nearest_to :: "double \<Rightarrow> int \<Rightarrow> int \<Rightarrow> bool" where
  "nearest_to d p q \<longleftrightarrow>
     2 ^ 52 \<le> mantissa d \<and> mantissa d < 2 ^ 53 \<and> exponent d \<le> 0 \<and> 0 < q \<and>
     2 * \<bar>mantissa d * q - p * 2 ^ nat (- exponent d)\<bar> < q"

text \<open>The update of one animation frame, and the radius after a number of frames.\<close>

definition animate :: "double \<Rightarrow> double" where
  "animate prev =
     (let next = plus_double prev lit_0_02
      in if greater_double next lit_1_2 then lit_0_8 else next)"

definition pulsingRadius :: "nat \<Rightarrow> double" where
  "pulsingRadius n = (animate ^^ n) lit_1"

section \<open>Picking\<close>

text \<open>
  A pick result may lack its object, the object its properties, and the properties either
  of the two the component reads. Both are strings; the empty string is falsy.
\<close>

record properties =
  NAME :: "string option"
  ISO_A3 :: "string option"

record pick_object =
  properties :: "properties option"

record pick_info =
  object :: "pick_object option"

definition truthy_string :: "string option \<Rightarrow> bool" where
  "truthy_string v = (case v of None \<Rightarrow> False | Some s \<Rightarrow> s \<noteq> [])"

text \<open>The optional chains \<^verbatim>\<open>object?.properties?.NAME\<close> and \<^verbatim>\<open>object?.properties?.ISO_A3\<close>.\<close>

definition object_NAME :: "pick_info \<Rightarrow> string option" where
  "object_NAME info =
     (case object info of
        None \<Rightarrow> None
      | Some ob \<Rightarrow> (case properties ob of None \<Rightarrow> None | Some ps \<Rightarrow> NAME ps))"

definition object_ISO_A3 :: "pick_info \<Rightarrow> string option" where
  "object_ISO_A3 info =
     (case object info of
        None \<Rightarrow> None
      | Some ob \<Rightarrow> (case properties ob of None \<Rightarrow> None | Some ps \<Rightarrow> ISO_A3 ps))"

text \<open>\<^verbatim>\<open>onClick\<close> returns the calls of \<^verbatim>\<open>onCountryClick\<close> it makes.\<close>

definition onClick :: "pick_info \<Rightarrow> string list" where
  "onClick info =
     (case object_ISO_A3 info of
        None \<Rightarrow> []
      | Some iso3 \<Rightarrow> if iso3 \<noteq> [] then [iso3] else [])"

definition getTooltip :: "pick_info \<Rightarrow> string option" where
  "getTooltip info =
     (if truthy_string (object_NAME info) then object_NAME info
      else if truthy_string (object_ISO_A3 info) then object_ISO_A3 info
      else None)"

section \<open>Sample inputs\<close>

abbreviation all_on :: LayerToggleState where
  "all_on \<equiv> \<lparr>choropleth = True, conflict = True, foodDesert = True, infrastructure = True,
     tradeArcs = True, displacementArcs = True, heatmap = True\<rparr>"

abbreviation only_heatmap :: LayerToggleState where
  "only_heatmap \<equiv> \<lparr>choropleth = False, conflict = False, foodDesert = False,
     infrastructure = False, tradeArcs = False, displacementArcs = False, heatmap = True\<rparr>"

abbreviation heatmap_and_conflict :: LayerToggleState where
  "heatmap_and_conflict \<equiv> \<lparr>choropleth = False, conflict = True, foodDesert = False,
     infrastructure = False, tradeArcs = False, displacementArcs = False, heatmap = True\<rparr>"

abbreviation no_results :: "(nat, nat, nat, nat, nat) AgentResults" where
  "no_results \<equiv> \<lparr>geopolitics = Undefined, economy = Undefined, food_supply = Undefined,
     infrastructure_out = Undefined, civilian_impact = Undefined\<rparr>"

abbreviation economy_only :: "(nat, nat, nat, nat, nat) AgentResults" where
  "economy_only \<equiv> \<lparr>geopolitics = Undefined, economy = Obj 5, food_supply = Null,
     infrastructure_out = Undefined, civilian_impact = Null\<rparr>"

abbreviation no_geometry :: "nat slot" where
  "no_geometry \<equiv> Undefined"

abbreviation deps_before :: "(nat, nat, nat, nat, nat, nat, nat) deps" where
  "deps_before \<equiv> \<lparr>dep_layerToggles = Ref 1 only_heatmap, dep_agentResults = Ref 2 no_results,
     dep_selectedCountry = None, dep_countriesGeoJSON = Undefined, dep_pulsingRadius = 1\<rparr>"

abbreviation deps_after :: "(nat, nat, nat, nat, nat, nat, nat) deps" where
  "deps_after \<equiv> \<lparr>dep_layerToggles = Ref 3 heatmap_and_conflict,
     dep_agentResults = Ref 2 no_results,
     dep_selectedCountry = None, dep_countriesGeoJSON = Undefined, dep_pulsingRadius = 1\<rparr>"


abbreviation memo_before :: "(nat, nat, nat, nat, nat, nat, nat) memo" where
  "memo_before \<equiv> \<lparr>last_deps = Some deps_before, cached = [(0, HeatmapLayer no_results)],
     next_addr = 1\<rparr>"

abbreviation memo_after :: "(nat, nat, nat, nat, nat, nat, nat) memo" where
  "memo_after \<equiv> \<lparr>last_deps = Some deps_after, cached = [(1, HeatmapLayer no_results)],
     next_addr = 2\<rparr>"

abbreviation pick_unnamed :: pick_info where
  "pick_unnamed \<equiv>
     \<lparr>object = Some \<lparr>properties = Some \<lparr>NAME = Some [], ISO_A3 = Some ''USA''\<rparr>\<rparr>\<rparr>"

abbreviation pick_blank :: pick_info where
  "pick_blank \<equiv> \<lparr>object = Some \<lparr>properties = Some \<lparr>NAME = None, ISO_A3 = Some []\<rparr>\<rparr>\<rparr>"

abbreviation pick_named :: pick_info where
  "pick_named \<equiv>
     \<lparr>object = Some \<lparr>properties = Some \<lparr>NAME = Some ''France'', ISO_A3 = Some ''FRA''\<rparr>\<rparr>\<rparr>"

abbreviation pick_id_only :: pick_info where
  "pick_id_only \<equiv>
     \<lparr>object = Some \<lparr>properties = Some \<lparr>NAME = None, ISO_A3 = Some ''FRA''\<rparr>\<rparr>\<rparr>"

abbreviation pick_nothing :: pick_info where
  "pick_nothing \<equiv> \<lparr>object = None\<rparr>"

section \<open>Properties of the layer composition\<close>

lemmas builder_defs =
  createChoroplethLayer_def createConflictLayer_def createFoodDesertLayer_def
  createInfrastructureLayer_def createTradeArcLayer_def createDisplacementArcLayer_def
  createHeatmapLayer_def

text \<open>The composition never faults, and its result is the seven guarded singletons in a row.\<close>

lemma layers_Inr:
  "layers t r s g p = Inr (
     (case g of Obj geo \<Rightarrow> if choropleth t then [ChoroplethLayer geo r s] else [] | _ \<Rightarrow> []) @
     (case geopolitics r of
        Obj v \<Rightarrow> if conflict t then [ConflictLayer v p] else [] | _ \<Rightarrow> []) @
     (case g of
        Obj geo \<Rightarrow>
          (case food_supply r of
             Obj v \<Rightarrow> if foodDesert t then [FoodDesertLayer geo v] else [] | _ \<Rightarrow> [])
      | _ \<Rightarrow> []) @
     (case infrastructure_out r of
        Obj v \<Rightarrow> if infrastructure t then [InfrastructureLayer v] else [] | _ \<Rightarrow> []) @
     (if tradeArcs t \<and> (truthy (economy r) \<or> truthy (food_supply r))
      then [TradeArcLayer (economy r) (food_supply r)] else []) @
     (case civilian_impact r of
        Obj v \<Rightarrow> if displacementArcs t then [DisplacementArcLayer v] else [] | _ \<Rightarrow> []) @
     (if heatmap t then [HeatmapLayer r] else []))"
  unfolding layers_def steps_def
  by (cases g; cases "geopolitics r"; cases "food_supply r"; cases "infrastructure_out r";
      cases "civilian_impact r")
     (simp_all add: builder_defs)

lemma filter_Cons_append: "filter P (x # xs) = (if P x then [x] else []) @ filter P xs"
  by simp

lemma kinds_layers:
  assumes "layers t r s g p = Inr L"
  shows "map kind_of L = filter (\<lambda>k. inclusion_rule k t r g) kind_order"
proof -
  have L: "L = projr (layers t r s g p)" using assms by simp
  show ?thesis
    unfolding L layers_Inr kind_order_def inclusion_rule_def
    by (cases g; cases "geopolitics r"; cases "food_supply r"; cases "infrastructure_out r";
        cases "civilian_impact r")
       (simp_all del: filter.simps add: filter_Cons_append)
qed

lemma distinct_kind_order: "distinct kind_order"
  by (simp add: kind_order_def)

lemma set_kind_order: "k \<in> set kind_order"
  by (cases k) (simp_all add: kind_order_def)

lemma filter_present: "filter (\<lambda>x. x \<in> set (filter P xs)) xs = filter P xs"
  by (rule filter_cong) auto

lemma kind_mem:
  assumes "layers t r s g p = Inr L"
  shows "k \<in> set (map kind_of L) \<longleftrightarrow> inclusion_rule k t r g"
  unfolding kinds_layers [OF assms] using set_kind_order by simp

lemma trade_mem:
  assumes "layers t r s g p = Inr L"
  shows "(TradeArcLayer (economy r) (food_supply r) \<in> set L) =
         (tradeArcs t \<and> (truthy (economy r) \<or> truthy (food_supply r)))"
proof -
  have L: "L = projr (layers t r s g p)" using assms by simp
  show ?thesis
    unfolding L layers_Inr
    by (cases g; cases "geopolitics r"; cases "food_supply r"; cases "infrastructure_out r";
        cases "civilian_impact r")
       simp_all
qed

lemma heatmap_mem:
  assumes "layers t r s g p = Inr L"
  shows "(HeatmapLayer r \<in> set L) = heatmap t"
proof -
  have L: "L = projr (layers t r s g p)" using assms by simp
  show ?thesis
    unfolding L layers_Inr
    by (cases g; cases "geopolitics r"; cases "food_supply r"; cases "infrastructure_out r";
        cases "civilian_impact r")
       simp_all
qed

lemma same_up_to_highlight_refl: "same_up_to_highlight a a"
  by (cases a) simp_all

lemma steps_guarded:
  "\<forall>(guard, build) \<in> set (steps t r s g p). guard \<longrightarrow> (\<exists>l. build () = Inr l)"
  unfolding steps_def
  by (cases g; cases "geopolitics r"; cases "food_supply r"; cases "infrastructure_out r";
      cases "civilian_impact r")
     (simp_all add: builder_defs)

text \<open>
  C1. For every toggle state, bundle, selection, geometry and pulsing radius the composed
  list holds at most one descriptor of each kind, and its kinds are the declaration order
  (choropleth, conflict, foodDesert, infrastructure, tradeArcs, displacementArcs, heatmap)
  restricted to the kinds that are present.
\<close>

theorem layers_canonical_order:
  "\<exists>L. layers t r s g p = Inr L \<and> distinct (map kind_of L) \<and>
        map kind_of L = filter (\<lambda>k. k \<in> set (map kind_of L)) kind_order"
proof -
  obtain L where L: "layers t r s g p = Inr L" by (simp add: layers_Inr)
  have K: "map kind_of L = filter (\<lambda>k. inclusion_rule k t r g) kind_order"
    by (rule kinds_layers [OF L])
  have "distinct (map kind_of L)" unfolding K using distinct_kind_order by simp
  moreover have "map kind_of L = filter (\<lambda>k. k \<in> set (map kind_of L)) kind_order"
    unfolding K by (simp only: filter_present)
  ultimately show ?thesis using L by blast
qed

text \<open>
  C2. A kind is in the composed list exactly when its rule holds: choropleth with its
  toggle and the geometry; conflict with its toggle and the geopolitics output; foodDesert
  with its toggle, the geometry and the food-supply output; infrastructure with its toggle
  and the infrastructure output; tradeArcs with its toggle and at least one of the economy
  and food-supply outputs, the builder receiving both properties as they are, absent ones
  included; displacementArcs with its toggle and the civilian-impact output.
\<close>

theorem layers_inclusion_rules:
  "\<exists>L. layers t r s g p = Inr L \<and>
     (Choropleth \<in> set (map kind_of L)) = (choropleth t \<and> truthy g) \<and>
     (Conflict \<in> set (map kind_of L)) = (conflict t \<and> truthy (geopolitics r)) \<and>
     (FoodDesert \<in> set (map kind_of L)) =
        (foodDesert t \<and> truthy g \<and> truthy (food_supply r)) \<and>
     (Infrastructure \<in> set (map kind_of L)) =
        (infrastructure t \<and> truthy (infrastructure_out r)) \<and>
     (TradeArcs \<in> set (map kind_of L)) =
        (tradeArcs t \<and> (truthy (economy r) \<or> truthy (food_supply r))) \<and>
     (TradeArcLayer (economy r) (food_supply r) \<in> set L) = (TradeArcs \<in> set (map kind_of L)) \<and>
     (DisplacementArcs \<in> set (map kind_of L)) =
        (displacementArcs t \<and> truthy (civilian_impact r))"
proof -
  obtain L where L: "layers t r s g p = Inr L" by (simp add: layers_Inr)
  note M = kind_mem [OF L, unfolded inclusion_rule_def]
  note T = trade_mem [OF L]
  have 1: "(Choropleth \<in> set (map kind_of L)) = (choropleth t \<and> truthy g)"
    by (simp only: M toggle.simps inputs_present.simps)
  have 2: "(Conflict \<in> set (map kind_of L)) = (conflict t \<and> truthy (geopolitics r))"
    by (simp only: M toggle.simps inputs_present.simps)
  have 3: "(FoodDesert \<in> set (map kind_of L)) =
             (foodDesert t \<and> truthy g \<and> truthy (food_supply r))"
    by (simp only: M toggle.simps inputs_present.simps)
  have 4: "(Infrastructure \<in> set (map kind_of L)) =
             (infrastructure t \<and> truthy (infrastructure_out r))"
    by (simp only: M toggle.simps inputs_present.simps)
  have 5: "(TradeArcs \<in> set (map kind_of L)) =
             (tradeArcs t \<and> (truthy (economy r) \<or> truthy (food_supply r)))"
    by (simp only: M toggle.simps inputs_present.simps)
  have 6: "(DisplacementArcs \<in> set (map kind_of L)) =
             (displacementArcs t \<and> truthy (civilian_impact r))"
    by (simp only: M toggle.simps inputs_present.simps)
  have 7: "(TradeArcLayer (economy r) (food_supply r) \<in> set L) =
             (TradeArcs \<in> set (map kind_of L))"
    by (simp only: T 5)
  show ?thesis using L 1 2 3 4 5 6 7 by blast
qed

text \<open>
  C5. The composition is total over partly populated inputs: for every bundle, with any
  outputs missing or null, and for a missing geometry, it returns a list and never
  faults; a kind whose toggle is on is left out only when an input of its guard is absent;
  the guard in front of each builder is the toggle of its kind together with the presence
  of the inputs of that kind; and every builder call that a guard lets through finds its
  declared inputs and succeeds.
\<close>

theorem layers_total:
  "(\<exists>L. layers t r s g p = Inr L \<and>
        (\<forall>k. k \<notin> set (map kind_of L) \<longrightarrow> toggle k t \<longrightarrow> \<not> inputs_present k r g)) \<and>
   map fst (steps t r s g p) = map (\<lambda>k. toggle k t \<and> inputs_present k r g) kind_order \<and>
   (\<forall>(guard, build) \<in> set (steps t r s g p). guard \<longrightarrow> (\<exists>l. build () = Inr l))"
proof -
  obtain L where L: "layers t r s g p = Inr L" by (simp add: layers_Inr)
  have "\<forall>k. k \<notin> set (map kind_of L) \<longrightarrow> toggle k t \<longrightarrow> \<not> inputs_present k r g"
    using kind_mem [OF L] by (simp add: inclusion_rule_def)
  with L have A: "\<exists>L. layers t r s g p = Inr L \<and>
        (\<forall>k. k \<notin> set (map kind_of L) \<longrightarrow> toggle k t \<longrightarrow> \<not> inputs_present k r g)"
    by (intro exI conjI)
  have B: "map fst (steps t r s g p) =
             map (\<lambda>k. toggle k t \<and> inputs_present k r g) kind_order"
    by (simp add: steps_def kind_order_def)
  show ?thesis by (intro conjI A B steps_guarded)
qed

theorem layers_total_witness:
  "layers all_on economy_only None no_geometry (1::nat) =
     Inr [TradeArcLayer (Obj 5) Null, HeatmapLayer economy_only] \<and>
   toggle Conflict all_on \<and> \<not> inputs_present Conflict economy_only no_geometry \<and>
   (\<exists>L. layers all_on economy_only None no_geometry (1::nat) = Inr L \<and>
        (\<forall>k. k \<notin> set (map kind_of L) \<longrightarrow> toggle k all_on \<longrightarrow>
             \<not> inputs_present k economy_only no_geometry))"
  using layers_total [of all_on economy_only None no_geometry "1::nat"]
  by (simp add: layers_def steps_def builder_defs)

text \<open>
  C8. Two compositions whose inputs differ only in the selection return lists of the same
  length that agree at every position up to the highlight: the descriptors are equal,
  except that the two choropleth descriptors may differ in the selection they were given.
\<close>

theorem selection_changes_highlight_only:
  "\<exists>L1 L2. layers t r s1 g p = Inr L1 \<and> layers t r s2 g p = Inr L2 \<and>
     list_all2 same_up_to_highlight L1 L2"
  unfolding layers_Inr
  by (cases g; cases "geopolitics r"; cases "food_supply r"; cases "infrastructure_out r";
      cases "civilian_impact r")
     (simp_all add: list_all2_appendI same_up_to_highlight_refl)

text \<open>
  C10. The heatmap layer depends on its toggle alone: the guard's test of the bundle always
  succeeds, so for every bundle, the one with every output absent included, the heatmap
  descriptor built from that bundle is in the list exactly when the heatmap toggle is on.
\<close>

theorem heatmap_toggle_only:
  "\<exists>L. layers t r s g p = Inr L \<and>
     (Heatmap \<in> set (map kind_of L)) = heatmap t \<and>
     (HeatmapLayer r \<in> set L) = heatmap t"
proof -
  obtain L where L: "layers t r s g p = Inr L" by (simp add: layers_Inr)
  have 1: "(Heatmap \<in> set (map kind_of L)) = heatmap t"
    by (simp only: kind_mem [OF L] inclusion_rule_def toggle.simps inputs_present.simps simp_thms)
  have 2: "(HeatmapLayer r \<in> set L) = heatmap t"
    by (rule heatmap_mem [OF L])
  show ?thesis using L 1 2 by blast
qed

section \<open>Properties of the memoization\<close>

lemma compose_Inr: "\<exists>L. compose d = Inr L"
  by (simp add: compose_def layers_Inr)

lemma recompute_fresh:
  "\<exists>objs m'. recompute m d = Inr (objs, m') \<and> compose d = Inr (map snd objs) \<and>
     (\<forall>a \<in> set (map fst objs). next_addr m \<le> a) \<and> cached m' = objs \<and> wf_memo m'"
proof -
  obtain L where L: "compose d = Inr L" using compose_Inr by blast
  define objs where "objs = zip [next_addr m ..< next_addr m + length L] L"
  define m' where
    "m' = \<lparr>last_deps = Some d, cached = objs, next_addr = next_addr m + length L\<rparr>"
  have Z: "map fst objs = [next_addr m ..< next_addr m + length L]"
    by (simp add: objs_def)
  have S: "map snd objs = L"
    by (simp add: objs_def)
  have 1: "recompute m d = Inr (objs, m')"
    by (simp add: recompute_def L Let_def objs_def m'_def)
  have 2: "\<forall>a \<in> set (map fst objs). next_addr m \<le> a"
    unfolding Z by simp
  have 3: "wf_memo m'"
    unfolding wf_memo_def m'_def by (simp del: set_map add: Z)
  have 4: "cached m' = objs" by (simp add: m'_def)
  show ?thesis using 1 2 3 4 L S by blast
qed

lemma wf_first_render: "wf_memo first_render"
  by (simp add: wf_memo_def first_render_def)

lemma wf_useMemo: "wf_memo m \<Longrightarrow> useMemo m d = Inr (objs, m') \<Longrightarrow> wf_memo m'"
  using recompute_fresh [of m d] by (auto simp: useMemo_def split: option.splits if_splits)

lemmas memo_eval =
  useMemo_def recompute_def compose_def are_deps_equal_def first_render_def
  layers_def steps_def builder_defs Let_def



lemma consistent_useMemo:
  assumes "consistent m" and "useMemo m d = Inr (objs, m')"
  shows "consistent m'"
proof (cases "\<exists>prev. last_deps m = Some prev \<and> are_deps_equal prev d")
  case True
  then have "useMemo m d = Inr (cached m, m)" by (auto simp: useMemo_def)
  with assms show ?thesis by simp
next
  case False
  then have u: "useMemo m d = recompute m d"
    by (cases "last_deps m") (auto simp: useMemo_def)
  obtain L where L: "compose d = Inr L" using compose_Inr by blast
  have "m' = \<lparr>last_deps = Some d,
               cached = zip [next_addr m ..< next_addr m + length L] L,
               next_addr = next_addr m + length L\<rparr>"
    using assms(2) unfolding u by (auto simp: recompute_def L Let_def)
  then show ?thesis by (simp add: consistent_def L)
qed




text \<open>
  C9, as stated, fails. The first render, with only the heatmap toggled on, builds the
  heatmap descriptor with identity 0. The next render differs only in the conflict toggle
  (a new toggle object; the bundle, the selection, the geometry and the radius are the same):
  the whole list is built again, and its heatmap descriptor has identity 1.
\<close>

theorem unrelated_toggle_rebuilds_heatmap:
  "useMemo first_render deps_before = Inr ([(0, HeatmapLayer no_results)], memo_before) \<and>
   useMemo memo_before deps_after = Inr ([(1, HeatmapLayer no_results)], memo_after) \<and>
   map fst (cached memo_before) = [0] \<and> map fst (cached memo_after) = [1] \<and>
   map snd (cached memo_before) = map snd (cached memo_after)"
  by (simp add: memo_eval)

text \<open>
  C9, amended. The list is memoized as a whole. When no dependency has changed, the cached
  list is returned and every descriptor, the heatmap descriptor included, is the same
  object as before. When some dependency has changed, a toggle unrelated to the heatmap
  included, the list is composed again from the new inputs and none of its descriptors is
  an object of the previous list.
\<close>

theorem memo_all_or_nothing:
  assumes "wf_memo m" and "last_deps m = Some prev"
  shows "(are_deps_equal prev d \<longrightarrow> useMemo m d = Inr (cached m, m)) \<and>
         (\<not> are_deps_equal prev d \<longrightarrow>
            (\<exists>objs m'. useMemo m d = Inr (objs, m') \<and> compose d = Inr (map snd objs) \<and>
               set (map fst objs) \<inter> set (map fst (cached m)) = {}))"
proof (intro conjI impI)
  assume "are_deps_equal prev d"
  then show "useMemo m d = Inr (cached m, m)" using assms by (simp add: useMemo_def)
next
  assume neq: "\<not> are_deps_equal prev d"
  obtain objs m' where R: "recompute m d = Inr (objs, m')" "compose d = Inr (map snd objs)"
    "\<forall>a \<in> set (map fst objs). next_addr m \<le> a"
    using recompute_fresh [of m d] by blast
  have "set (map fst objs) \<inter> set (map fst (cached m)) = {}"
    using R(3) assms(1) unfolding wf_memo_def by fastforce
  moreover have "useMemo m d = Inr (objs, m')"
    using neq assms(2) R(1) by (simp add: useMemo_def)
  ultimately show "\<exists>objs m'. useMemo m d = Inr (objs, m') \<and> compose d = Inr (map snd objs) \<and>
               set (map fst objs) \<inter> set (map fst (cached m)) = {}" using R(2) by blast
qed

theorem memo_all_or_nothing_witness:
  "wf_memo memo_before \<and> last_deps memo_before = Some deps_before \<and>
   are_deps_equal deps_before deps_before \<and>
   useMemo memo_before deps_before = Inr (cached memo_before, memo_before) \<and>
   \<not> are_deps_equal deps_before deps_after \<and>
   (\<exists>objs m'. useMemo memo_before deps_after = Inr (objs, m') \<and>
      compose deps_after = Inr (map snd objs) \<and>
      set (map fst objs) \<inter> set (map fst (cached memo_before)) = {})"
proof -
  have w: "wf_memo memo_before" by (simp add: wf_memo_def)
  have l: "last_deps memo_before = Some deps_before" by simp
  have e: "are_deps_equal deps_before deps_before" by (simp add: are_deps_equal_def)
  have n: "\<not> are_deps_equal deps_before deps_after" by (simp add: are_deps_equal_def)
  show ?thesis
    using memo_all_or_nothing [OF w l, of deps_before]
      memo_all_or_nothing [OF w l, of deps_after] w e n by simp
qed

section \<open>Properties of the readiness gate\<close>

lemma check_ready: "ready s \<Longrightarrow> ready (check w h s)"
  by (simp add: check_def)

lemma effect_ready: "ready s \<Longrightarrow> ready (effect el s)"
  by (cases el) (auto simp: effect_def check_def Let_def)

lemma step_ready: "ready s \<Longrightarrow> ready (step s ev)"
  by (cases ev) (simp_all add: check_ready effect_ready)

lemma foldl_ready: "ready s \<Longrightarrow> ready (foldl step s evs)"
  by (induction evs arbitrary: s) (simp_all add: step_ready)

lemma step_waiting:
  "waiting s \<Longrightarrow> (if sized ev then ready (step s ev) else waiting (step s ev))"
  by (cases ev) (auto simp: waiting_def check_def)

lemma foldl_waiting:
  "waiting s \<Longrightarrow> ready (foldl step s evs) \<longleftrightarrow> (\<exists>ev \<in> set evs. sized ev)"
proof (induction evs arbitrary: s)
  case Nil
  then show ?case by (simp add: waiting_def)
next
  case (Cons ev evs)
  show ?case
  proof (cases "sized ev")
    case True
    with step_waiting [OF Cons.prems, of ev] have "ready (step s ev)" by simp
    then show ?thesis using True by (simp add: foldl_ready)
  next
    case False
    with step_waiting [OF Cons.prems, of ev] have "waiting (step s ev)" by simp
    from Cons.IH [OF this] show ?thesis using False by simp
  qed
qed

lemma mount_cases:
  "(if w > 0 \<and> h > 0 then ready (mount (Some (w, h))) else waiting (mount (Some (w, h))))"
  by (simp add: mount_def effect_def initial_def check_def waiting_def Let_def)

text \<open>
  C4. The gate starts not ready. With the container mounted, it is ready after a run of
  events exactly when the size read at the mount, or the size reported by some
  notification so far, had a width and a height above zero: it becomes ready at the first
  such observation. Once ready it is ready after every further event, whatever sizes
  later notifications report.
\<close>

theorem ready_is_monotonic:
  "\<not> ready initial \<and>
   (ready (run (Some (w, h)) evs) \<longleftrightarrow> (w > 0 \<and> h > 0) \<or> (\<exists>ev \<in> set evs. sized ev)) \<and>
   (ready (run el evs) \<longrightarrow> ready (run el (evs @ later)))"
proof (intro conjI)
  show "\<not> ready initial" by (simp add: initial_def)
  show "ready (run (Some (w, h)) evs) \<longleftrightarrow> (w > 0 \<and> h > 0) \<or> (\<exists>ev \<in> set evs. sized ev)"
  proof (cases "w > 0 \<and> h > 0")
    case True
    with mount_cases [of w h] have "ready (mount (Some (w, h)))" by simp
    then show ?thesis using True by (simp add: run_def foldl_ready)
  next
    case False
    with mount_cases [of w h] have "waiting (mount (Some (w, h)))" by simp
    from foldl_waiting [OF this, of evs] show ?thesis using False by (auto simp: run_def)
  qed
  show "ready (run el evs) \<longrightarrow> ready (run el (evs @ later))"
    by (simp add: run_def foldl_ready)
qed

theorem ready_is_monotonic_witness:
  "\<not> ready (run (Some (0, 0)) [Notify 0 0]) \<and>
   ready (run (Some (0, 0)) [Notify 0 0, Notify 800 600]) \<and>
   ready (run (Some (0, 0))
            ([Notify 0 0, Notify 800 600] @ [Render (Some (800, 600)), Notify 0 0]))"
  using ready_is_monotonic [where w = 0 and h = 0 and evs = "[Notify 0 0, Notify 800 600]"
          and el = "Some (0, 0)" and later = "[Render (Some (800, 600)), Notify 0 0]"]
        ready_is_monotonic [where w = 0 and h = 0 and evs = "[Notify 0 0]"]
  by simp

section \<open>Properties of the pulsing radius\<close>

lemma bit_length_0: "bit_length 0 = 0"
  by (simp add: bit_length.simps)

lemma bit_length_1: "bit_length 1 = Suc 0"
  by (simp add: bit_length.simps)

lemma bit_length_numeral: "bit_length (numeral k) = Suc (bit_length (numeral k div 2))"
  by (subst bit_length.simps) simp

lemmas double_eval =
  animate_def plus_double_def greater_double_def eq_double_def aligned_def
  round_nearest_even_def lit_1_def lit_0_02_def lit_1_2_def lit_0_8_def Let_def
  bit_length_0 bit_length_1 bit_length_numeral

text \<open>
  The length in bits of a positive number, and the two cases of the rounding: a value that
  fits is exact, a longer one is off by at most half a unit of the last place kept.
\<close>

lemma bit_length_pos: "0 < m \<Longrightarrow> bit_length m = Suc (bit_length (m div 2))"
  by (subst bit_length.simps) simp

lemma bit_length_bounds:
  "0 < m \<Longrightarrow> 2 ^ (bit_length m - 1) \<le> m \<and> m < 2 ^ bit_length m"
proof (induction m rule: bit_length.induct)
  case (1 n)
  show ?case
  proof (cases "n div 2 = 0")
    case True
    with "1.prems" have "n = 1" by presburger
    then show ?thesis by (simp add: bit_length_1)
  next
    case False
    with "1.prems" have pos: "0 < n div 2" by presburger
    from "1.prems" have nle: "\<not> n \<le> 0" by simp
    from "1.IH" [OF nle pos]
    have lo: "2 ^ (bit_length (n div 2) - 1) \<le> n div 2"
      and hi: "n div 2 < 2 ^ bit_length (n div 2)" by simp_all
    from pos have bl: "bit_length (n div 2) = Suc (bit_length (n div 2) - 1)"
      by (simp add: bit_length_pos)
    have "bit_length n = Suc (bit_length (n div 2))"
      using "1.prems" by (rule bit_length_pos)
    moreover have "(2::int) ^ bit_length (n div 2) \<le> n"
    proof -
      have "(2::int) ^ bit_length (n div 2) = 2 * 2 ^ (bit_length (n div 2) - 1)"
        by (subst bl) simp
      also have "\<dots> \<le> 2 * (n div 2)" using lo by simp
      also have "\<dots> \<le> n" by presburger
      finally show ?thesis .
    qed
    moreover have "n < 2 * 2 ^ bit_length (n div 2)"
    proof -
      have "n \<le> 2 * (n div 2) + 1" by presburger
      also have "\<dots> < 2 * 2 ^ bit_length (n div 2)" using hi by simp
      finally show ?thesis .
    qed
    ultimately show ?thesis by simp
  qed
qed

text \<open>A value of at most 53 bits is kept exactly, with its mantissa shifted to 53 bits.\<close>

lemma round_nearest_even_exact:
  assumes "0 < m" and "bit_length m \<le> 53"
  shows "\<exists>k. round_nearest_even m e = Double (m * 2 ^ k) (e - int k) \<and>
             2 ^ 52 \<le> m * 2 ^ k \<and> m * 2 ^ k < 2 ^ 53"
proof -
  let ?n = "bit_length m"
  from bit_length_bounds [OF assms(1)]
  have lo: "2 ^ (?n - 1) \<le> m" and hi: "m < 2 ^ ?n" by simp_all
  have npos: "0 < ?n" using assms(1) by (simp add: bit_length_pos)
  have r: "round_nearest_even m e = Double (m * 2 ^ (53 - ?n)) (e - int (53 - ?n))"
    using assms(2) by (simp add: round_nearest_even_def Let_def)
  have "(2::int) ^ 52 = 2 ^ (?n - 1) * 2 ^ (53 - ?n)"
    using npos assms(2) by (simp flip: power_add)
  also have "\<dots> \<le> m * 2 ^ (53 - ?n)" using lo by (simp add: mult_right_mono)
  finally have a: "2 ^ 52 \<le> m * 2 ^ (53 - ?n)" .
  have "m * 2 ^ (53 - ?n) < 2 ^ ?n * 2 ^ (53 - ?n)" using hi by simp
  also have "\<dots> = (2::int) ^ 53" using assms(2) by (simp flip: power_add)
  finally have b: "m * 2 ^ (53 - ?n) < 2 ^ 53" .
  show ?thesis using r a b by blast
qed

lemma round_nearest_even_long:
  assumes "53 < bit_length m"
  shows "round_nearest_even m e =
           (let s = bit_length m - 53;
                q' = (if m mod 2 ^ s > 2 ^ (s - 1) \<or> (m mod 2 ^ s = 2 ^ (s - 1) \<and> odd (m div 2 ^ s))
                      then m div 2 ^ s + 1 else m div 2 ^ s)
            in if q' = 2 ^ 53 then Double (2 ^ 52) (e + int s + 1) else Double q' (e + int s))"
proof -
  have "\<not> bit_length m \<le> 53" using assms by simp
  then show ?thesis
    unfolding round_nearest_even_def Let_def by (simp only: if_False)
qed

lemma round_step:
  fixes q rest half p :: int
  assumes "0 \<le> rest" and "rest < p" and "2 * half = p"
  defines "q' \<equiv> (if rest > half \<or> (rest = half \<and> odd q) then q + 1 else q)"
  shows "2 * \<bar>q' * p - (q * p + rest)\<bar> \<le> p \<and>
         (2 * \<bar>q' * p - (q * p + rest)\<bar> = p \<longrightarrow> even q')"
proof (cases "rest > half \<or> (rest = half \<and> odd q)")
  case True
  then have q': "q' = q + 1" by (simp add: q'_def)
  have d: "q' * p - (q * p + rest) = p - rest" unfolding q' by (simp add: algebra_simps)
  from True have "half \<le> rest" by auto
  with assms(1-3) have "2 * \<bar>p - rest\<bar> \<le> p" by arith
  moreover have "2 * \<bar>p - rest\<bar> = p \<longrightarrow> even q'"
  proof
    assume "2 * \<bar>p - rest\<bar> = p"
    with assms(1-3) have "rest = half" by arith
    with True have "odd q" by simp
    then show "even q'" by (simp add: q')
  qed
  ultimately show ?thesis unfolding d by blast
next
  case False
  then have q': "q' = q" by (simp add: q'_def)
  have d: "q' * p - (q * p + rest) = - rest" unfolding q' by simp
  from False have "rest \<le> half" by auto
  with assms(1-3) have "2 * \<bar>- rest\<bar> \<le> p" by arith
  moreover have "2 * \<bar>- rest\<bar> = p \<longrightarrow> even q'"
  proof
    assume "2 * \<bar>- rest\<bar> = p"
    with assms(1-3) have "rest = half" by arith
    with False have "even q" by simp
    then show "even q'" by (simp add: q')
  qed
  ultimately show ?thesis unfolding d by blast
qed

text \<open>
  A longer value is rounded to 53 bits: the result is normal, it differs from the exact
  value by at most half a unit of the last place kept, and at exactly half a unit its
  mantissa is even.
\<close>

lemma round_nearest_even_error:
  assumes "53 < bit_length m"
  defines "s \<equiv> bit_length m - 53"
  shows "\<exists>q k. round_nearest_even m e = Double q (e + int k) \<and>
           2 ^ 52 \<le> q \<and> q < 2 ^ 53 \<and>
           2 * \<bar>q * 2 ^ k - m\<bar> \<le> 2 ^ s \<and>
           (2 * \<bar>q * 2 ^ k - m\<bar> = 2 ^ s \<longrightarrow> even q)"
proof -
  let ?n = "bit_length m"
  have mpos: "0 < m" using assms(1) by (cases "m \<le> 0") (simp_all add: bit_length.simps)
  from bit_length_bounds [OF mpos]
  have lo: "2 ^ (?n - 1) \<le> m" and hi: "m < 2 ^ ?n" by simp_all
  have spos: "0 < s" using assms(1) by (simp add: s_def)
  have n: "?n = 53 + s" using assms(1) by (simp add: s_def)
  define q where "q = m div 2 ^ s"
  define rest where "rest = m mod 2 ^ s"
  define half :: int where "half = 2 ^ (s - 1)"
  have two_half: "2 * half = 2 ^ s" using spos by (simp add: half_def flip: power_Suc)
  have m: "m = q * 2 ^ s + rest" unfolding q_def rest_def by (rule div_mult_mod_eq [symmetric])
  have rest0: "0 \<le> rest" and rest1: "rest < 2 ^ s" by (simp_all add: rest_def)
  have pow: "(0::int) < 2 ^ s" by simp
  have qlo: "2 ^ 52 \<le> q"
  proof -
    have "q * 2 ^ s + rest < q * 2 ^ s + 2 ^ s" using rest1 by simp
    also have "\<dots> = (q + 1) * 2 ^ s" by (simp add: distrib_right)
    finally have up: "m < (q + 1) * 2 ^ s" by (simp only: m [symmetric])
    have "?n - 1 = 52 + s" using n by simp
    then have "(2::int) ^ (52 + s) \<le> m" using lo by (simp only:)
    then have "(2::int) ^ 52 * 2 ^ s \<le> m" by (simp only: power_add)
    also note up
    finally have "(2::int) ^ 52 < q + 1" using pow by (simp only: mult_less_cancel_right_pos)
    then show ?thesis by simp
  qed
  have qhi: "q < 2 ^ 53"
  proof -
    have "q * 2 ^ s \<le> q * 2 ^ s + rest" using rest0 by simp
    then have "q * 2 ^ s \<le> m" by (simp only: m [symmetric])
    also have "m < 2 ^ (53 + s)" using hi n by (simp only:)
    also have "(2::int) ^ (53 + s) = 2 ^ 53 * 2 ^ s" by (rule power_add)
    finally show ?thesis using pow by (simp only: mult_less_cancel_right_pos)
  qed
  define q' where "q' = (if rest > half \<or> (rest = half \<and> odd q) then q + 1 else q)"
  have r: "round_nearest_even m e =
             (if q' = 2 ^ 53 then Double (2 ^ 52) (e + int s + 1) else Double q' (e + int s))"
    using round_nearest_even_long [OF assms(1), of e]
    unfolding Let_def s_def [symmetric] q_def [symmetric] rest_def [symmetric]
      half_def [symmetric] q'_def [symmetric] .
  have both: "2 * \<bar>q' * 2 ^ s - m\<bar> \<le> 2 ^ s \<and>
        (2 * \<bar>q' * 2 ^ s - m\<bar> = 2 ^ s \<longrightarrow> even q')"
    using round_step [OF rest0 rest1 two_half, of q] unfolding q'_def m [symmetric] .
  from both have err: "2 * \<bar>q' * 2 ^ s - m\<bar> \<le> 2 ^ s" by (rule conjunct1)
  from both have tie: "2 * \<bar>q' * 2 ^ s - m\<bar> = 2 ^ s \<longrightarrow> even q'" by (rule conjunct2)
  show ?thesis
  proof (cases "q' = 2 ^ 53")
    case True
    have v: "q' * 2 ^ s = (2::int) ^ 52 * 2 ^ (s + 1)" unfolding True by simp
    have 1: "round_nearest_even m e = Double (2 ^ 52) (e + int (s + 1))"
      unfolding r using True by (simp add: add.assoc)
    have 2: "(2::int) ^ 52 \<le> 2 ^ 52" by simp
    have 3: "(2::int) ^ 52 < 2 ^ 53" by simp
    have 4: "2 * \<bar>(2::int) ^ 52 * 2 ^ (s + 1) - m\<bar> \<le> 2 ^ s" using err unfolding v .
    have 5: "2 * \<bar>(2::int) ^ 52 * 2 ^ (s + 1) - m\<bar> = 2 ^ s \<longrightarrow> even ((2::int) ^ 52)"
      by simp
    show ?thesis
      by (rule exI [of _ "2 ^ 52"], rule exI [of _ "s + 1"]) (intro conjI 1 2 3 4 5)
  next
    case False
    have "q' \<le> q + 1" by (simp add: q'_def)
    with qhi have "q' \<le> 2 ^ 53" by linarith
    with False have 3: "q' < 2 ^ 53" by linarith
    have "q \<le> q'" by (simp add: q'_def)
    with qlo have 2: "2 ^ 52 \<le> q'" by linarith
    have 1: "round_nearest_even m e = Double q' (e + int s)" unfolding r using False by simp
    show ?thesis
      by (rule exI [of _ q'], rule exI [of _ s]) (intro conjI 1 2 3 err tie)
  qed
qed

text \<open>The literals are the binary64 numbers nearest to the decimals of the source.\<close>

lemma literals_nearest:
  "nearest_to lit_1 1 1" "nearest_to lit_0_02 2 100" "nearest_to lit_1_2 12 10"
  "nearest_to lit_0_8 8 10"
  by (simp_all add: nearest_to_def lit_1_def lit_0_02_def lit_1_2_def lit_0_8_def)

lemma pulsingRadius_0: "pulsingRadius 0 = lit_1"
  by (simp add: pulsingRadius_def)

lemma pulsingRadius_Suc: "pulsingRadius (Suc n) = animate (pulsingRadius n)"
  by (simp add: pulsingRadius_def)

lemma tick_1: "animate lit_1 = Double 4593671619917906 (- 52)"
  by (simp add: double_eval)

lemma tick_2: "animate (Double 4593671619917906 (- 52)) = Double 4683743612465316 (- 52)"
  by (simp add: double_eval)

lemma tick_3: "animate (Double 4683743612465316 (- 52)) = Double 4773815605012726 (- 52)"
  by (simp add: double_eval)

lemma tick_4: "animate (Double 4773815605012726 (- 52)) = Double 4863887597560136 (- 52)"
  by (simp add: double_eval)

lemma tick_5: "animate (Double 4863887597560136 (- 52)) = Double 4953959590107546 (- 52)"
  by (simp add: double_eval)

lemma tick_6: "animate (Double 4953959590107546 (- 52)) = Double 5044031582654956 (- 52)"
  by (simp add: double_eval)

lemma tick_7: "animate (Double 5044031582654956 (- 52)) = Double 5134103575202366 (- 52)"
  by (simp add: double_eval)

lemma tick_8: "animate (Double 5134103575202366 (- 52)) = Double 5224175567749776 (- 52)"
  by (simp add: double_eval)

lemma tick_9: "animate (Double 5224175567749776 (- 52)) = Double 5314247560297186 (- 52)"
  by (simp add: double_eval)

lemma sum_10:
  "plus_double (Double 5314247560297186 (- 52)) lit_0_02 = Double 5404319552844596 (- 52)"
  by (simp add: double_eval)

lemma tick_10: "animate (Double 5314247560297186 (- 52)) = lit_0_8"
  by (simp add: double_eval)

lemma tick_11: "animate lit_0_8 = Double 7385903388887614 (- 53)"
  by (simp add: double_eval)

lemma pulsingRadius_9: "pulsingRadius 9 = Double 5314247560297186 (- 52)"
proof -
  have "pulsingRadius 9 = animate (animate (animate (animate (animate (animate (animate
          (animate (animate lit_1))))))))"
    by (simp add: pulsingRadius_def eval_nat_numeral)
  then show ?thesis
    by (simp only: tick_1 tick_2 tick_3 tick_4 tick_5 tick_6 tick_7 tick_8 tick_9)
qed

lemma pulsingRadius_10: "pulsingRadius 10 = lit_0_8"
proof -
  have "pulsingRadius 10 = animate (pulsingRadius 9)"
    by (simp add: pulsingRadius_def eval_nat_numeral)
  then show ?thesis by (simp only: pulsingRadius_9 tick_10)
qed

lemma pulsingRadius_11: "pulsingRadius 11 = Double 7385903388887614 (- 53)"
proof -
  have "pulsingRadius 11 = animate (pulsingRadius 10)"
    by (simp add: pulsingRadius_def eval_nat_numeral)
  then show ?thesis by (simp only: pulsingRadius_10 tick_11)
qed

text \<open>
  C3, as stated, fails. In binary64 arithmetic the radius after nine frames is
  1.1800000000000002; the tenth sum is 1.2000000000000002, which exceeds the literal 1.2,
  so the radius after ten frames is 0.8 and not 1.2.
\<close>

theorem tenth_tick_is_not_1_2:
  "pulsingRadius 10 = lit_0_8 \<and> \<not> eq_double (pulsingRadius 10) lit_1_2"
  by (simp add: pulsingRadius_10) (simp add: double_eval)

text \<open>
  C3, amended. The radius starts at 1 and advances by 0.02 a frame in binary64 arithmetic.
  After nine frames it is 1.1800000000000002; the tenth sum, 1.2000000000000002, exceeds
  1.2, so after exactly ten frames the radius is 0.8 (it wraps, it is not clamped), and
  the eleventh frame continues from there with 0.8200000000000001.
\<close>

theorem pulse_wraps_at_tenth_tick:
  "pulsingRadius 0 = lit_1 \<and>
   pulsingRadius 9 = Double 5314247560297186 (- 52) \<and>
   plus_double (pulsingRadius 9) lit_0_02 = Double 5404319552844596 (- 52) \<and>
   greater_double (plus_double (pulsingRadius 9) lit_0_02) lit_1_2 \<and>
   pulsingRadius 10 = lit_0_8 \<and>
   pulsingRadius 11 = Double 7385903388887614 (- 53)"
proof -
  have "greater_double (Double 5404319552844596 (- 52)) lit_1_2"
    by (simp add: double_eval)
  then show ?thesis
    by (simp only: pulsingRadius_0 pulsingRadius_9 pulsingRadius_10 pulsingRadius_11 sum_10)
qed

section \<open>Properties of picking\<close>

lemmas pick_eval =
  getTooltip_def onClick_def object_NAME_def object_ISO_A3_def truthy_string_def

text \<open>
  C6, as stated, fails on empty strings. A pick result that carries the display name
  \<^verbatim>\<open>""\<close> and the identifier \<^verbatim>\<open>"USA"\<close> is labelled with the identifier, not with its
  name; a click on a pick result that carries the identifier \<^verbatim>\<open>""\<close> emits no event.
\<close>

theorem empty_strings_are_skipped:
  "object_NAME pick_unnamed = Some [] \<and>
   getTooltip pick_unnamed = Some ''USA'' \<and>
   getTooltip pick_unnamed \<noteq> object_NAME pick_unnamed \<and>
   object_ISO_A3 pick_blank = Some [] \<and>
   onClick pick_blank = []"
  by (simp add: pick_eval)

text \<open>
  C6, amended. For every pick result: if it carries a non-empty display name, the hover
  label is that name; otherwise, if it carries a non-empty region identifier, the label is
  the identifier; otherwise there is no label. A click emits exactly one region-click
  event, carrying the identifier, exactly when the pick result carries a non-empty region
  identifier; otherwise it emits nothing, and neither function fails.
\<close>

theorem pick_resolution:
  "(truthy_string (object_NAME info) \<longrightarrow> getTooltip info = object_NAME info) \<and>
   (\<not> truthy_string (object_NAME info) \<and> truthy_string (object_ISO_A3 info) \<longrightarrow>
      getTooltip info = object_ISO_A3 info) \<and>
   (\<not> truthy_string (object_NAME info) \<and> \<not> truthy_string (object_ISO_A3 info) \<longrightarrow>
      getTooltip info = None) \<and>
   (\<forall>iso3. (onClick info = [iso3]) = (object_ISO_A3 info = Some iso3 \<and> iso3 \<noteq> [])) \<and>
   (\<not> truthy_string (object_ISO_A3 info) \<longrightarrow> onClick info = [])"
  by (auto simp: getTooltip_def onClick_def truthy_string_def split: option.splits)

theorem pick_resolution_witness:
  "truthy_string (object_NAME pick_named) \<and> getTooltip pick_named = Some ''France'' \<and>
   onClick pick_named = [''FRA''] \<and>
   \<not> truthy_string (object_NAME pick_id_only) \<and> truthy_string (object_ISO_A3 pick_id_only) \<and>
   getTooltip pick_id_only = Some ''FRA'' \<and>
   \<not> truthy_string (object_NAME pick_nothing) \<and> \<not> truthy_string (object_ISO_A3 pick_nothing) \<and>
   getTooltip pick_nothing = None \<and> onClick pick_nothing = []"
  using pick_resolution [of pick_named] pick_resolution [of pick_id_only]
    pick_resolution [of pick_nothing]
  by (simp add: pick_eval)

end
